theory Spec2Isabelle
  imports Main "HOL-Library.Word"
begin

section \<open>JavaScript values used by the composable\<close>

text \<open>
  The composable \<open>useMqtt\<close> (second half of \<open>src/src/App.vue\<close>) passes messages and
  option bags around as plain JavaScript values.  Every value of the type below is a
  JavaScript value, and the conversions defined on it give what JavaScript gives:
  \<^item> \<open>JNum i\<close> is the number with the integer value \<open>sint i\<close>, between \<open>-2^53\<close> and
    \<open>2^53 - 1\<close>; in that range every integer is a number and prints as its decimal digits
    (a numeral is read modulo \<open>2^54\<close>, as for every word);
  \<^item> \<open>JNaN\<close>, \<open>JInfinity\<close>, \<open>JNegInfinity\<close> and \<open>JNegZero\<close> are the four special numbers;
  \<^item> \<open>JOtherNumber text\<close> is any other finite number, named by the text that
    \<open>Number.prototype.toString\<close> prints for it (\<open>0.5\<close>, \<open>1e+21\<close>), which identifies it;
  \<^item> \<open>JBigInt i\<close> is the BigInt \<open>i\<close>, \<open>JSymbol d\<close> a symbol with description \<open>d\<close>,
    \<open>JFunction src\<close> a function whose \<open>toString\<close> gives \<open>src\<close>;
  \<^item> strings have code units that fit a \<open>char\<close>;
  \<^item> \<open>JArr\<close> is an array and \<open>JObj\<close> a plain data object, given by its own properties in
    enumeration order.
  Objects with a cycle or with a \<open>toJSON\<close> method are not in the type.
\<close>

datatype js_error = Error string | TypeError string

datatype jsval =
    JUndefined
  | JNull
  | JBool bool
  | JNum "54 word"
  | JNaN
  | JInfinity
  | JNegInfinity
  | JNegZero
  | JOtherNumber string
  | JBigInt int
  | JStr string
  | JSymbol string
  | JFunction string
  | JArr "jsval list"
  | JObj "(string \<times> jsval) list"

text \<open>The \<open>typeof\<close> operator; \<open>typeof null\<close> and \<open>typeof []\<close> are both \<open>object\<close>.\<close>

fun typeof :: "jsval \<Rightarrow> string" where
  "typeof JUndefined = ''undefined''"
| "typeof JNull = ''object''"
| "typeof (JBool b) = ''boolean''"
| "typeof (JNum i) = ''number''"
| "typeof JNaN = ''number''"
| "typeof JInfinity = ''number''"
| "typeof JNegInfinity = ''number''"
| "typeof JNegZero = ''number''"
| "typeof (JOtherNumber text) = ''number''"
| "typeof (JBigInt i) = ''bigint''"
| "typeof (JStr s) = ''string''"
| "typeof (JSymbol d) = ''symbol''"
| "typeof (JFunction src) = ''function''"
| "typeof (JArr xs) = ''object''"
| "typeof (JObj kvs) = ''object''"

text \<open>Decimal digits of a natural number, most significant first, and of an integer.\<close>

fun digits :: "nat \<Rightarrow> string" where
  "digits n =
     (if n < 10 then [''0123456789'' ! n]
      else digits (n div 10) @ [''0123456789'' ! (n mod 10)])"

definition decimal :: "int \<Rightarrow> string" where
  "decimal n = (if n < 0 then CHR ''-'' # digits (nat (- n)) else digits (nat n))"

text \<open>Reading decimal digits back, to say what \<open>digits\<close> prints.\<close>

definition digit_value :: "char \<Rightarrow> nat" where
  "digit_value c = of_char c - 48"

definition decimal_value :: "string \<Rightarrow> nat" where
  "decimal_value s = foldl (\<lambda>a c. 10 * a + digit_value c) 0 s"

text \<open>\<open>Array.prototype.join\<close> on already rendered elements.\<close>

fun join :: "string \<Rightarrow> string list \<Rightarrow> string" where
  "join sep [] = []"
| "join sep [x] = x"
| "join sep (x # y # ys) = x @ sep @ join sep (y # ys)"

text \<open>Conversions run left to right and stop at the first one that throws.\<close>

fun first_error :: "(js_error + 'a) list \<Rightarrow> js_error + 'a list" where
  "first_error [] = Inr []"
| "first_error (Inl e # rs) = Inl e"
| "first_error (Inr x # rs) =
     (case first_error rs of Inl e \<Rightarrow> Inl e | Inr xs \<Rightarrow> Inr (x # xs))"

text \<open>
  The abstract operation \<open>ToString\<close>: it throws on a symbol; an array is its elements
  joined by commas, \<open>null\<close> and \<open>undefined\<close> elements printing as nothing.
\<close>

fun ToString :: "jsval \<Rightarrow> js_error + string" where
  "ToString JUndefined = Inr ''undefined''"
| "ToString JNull = Inr ''null''"
| "ToString (JBool b) = Inr (if b then ''true'' else ''false'')"
| "ToString (JNum i) = Inr (decimal (sint i))"
| "ToString JNaN = Inr ''NaN''"
| "ToString JInfinity = Inr ''Infinity''"
| "ToString JNegInfinity = Inr ''-Infinity''"
| "ToString JNegZero = Inr ''0''"
| "ToString (JOtherNumber text) = Inr text"
| "ToString (JBigInt i) = Inr (decimal i)"
| "ToString (JStr s) = Inr s"
| "ToString (JSymbol d) = Inl (TypeError ''Cannot convert a Symbol value to a string'')"
| "ToString (JFunction src) = Inr src"
| "ToString (JArr xs) =
     (case first_error
             (map (\<lambda>x. if x = JUndefined \<or> x = JNull then Inr [] else ToString x) xs) of
        Inl e \<Rightarrow> Inl e
      | Inr ss \<Rightarrow> Inr (join '','' ss))"
| "ToString (JObj kvs) = Inr ''[object Object]''"

text \<open>The conversion \<open>String(v)\<close>: as \<open>ToString\<close>, but a symbol prints its description.\<close>

definition String_js :: "jsval \<Rightarrow> js_error + string" where
  "String_js v = (case v of JSymbol d \<Rightarrow> Inr (''Symbol('' @ d @ '')'') | _ \<Rightarrow> ToString v)"

definition hex4 :: "nat \<Rightarrow> string" where
  "hex4 n =
     [CHR ''0'', CHR ''0'', ''0123456789abcdef'' ! (n div 16 mod 16),
      ''0123456789abcdef'' ! (n mod 16)]"

text \<open>JSON string escaping: the quote, the backslash and the control characters.\<close>

definition escape_char :: "char \<Rightarrow> string" where
  "escape_char c =
     (if c = CHR 0x22 then [CHR 0x5C, CHR 0x22]
      else if c = CHR 0x5C then [CHR 0x5C, CHR 0x5C]
      else if c = CHR 0x08 then [CHR 0x5C, CHR ''b'']
      else if c = CHR 0x0C then [CHR 0x5C, CHR ''f'']
      else if c = CHR 0x0A then [CHR 0x5C, CHR ''n'']
      else if c = CHR 0x0D then [CHR 0x5C, CHR ''r'']
      else if c = CHR 0x09 then [CHR 0x5C, CHR ''t'']
      else if of_char c < (0x20 :: nat) then [CHR 0x5C, CHR ''u''] @ hex4 (of_char c)
      else [c])"

definition quote :: "string \<Rightarrow> string" where
  "quote s = [CHR 0x22] @ concat (map escape_char s) @ [CHR 0x22]"

text \<open>
  What \<open>JSON.stringify\<close> makes of a value where it stands: it throws (on a BigInt, with the
  message of V8), it has no text (\<open>undefined\<close>, a symbol, a function), or it has a text.
  An array prints \<open>null\<close> for an element without text, an object leaves such a property
  out, and both throw what an element throws.
\<close>

datatype outcome = Throws js_error | Omitted | Text string

fun array_elements :: "outcome list \<Rightarrow> js_error + string list" where
  "array_elements [] = Inr []"
| "array_elements (Throws e # os) = Inl e"
| "array_elements (Omitted # os) =
     (case array_elements os of Inl e \<Rightarrow> Inl e | Inr ss \<Rightarrow> Inr (''null'' # ss))"
| "array_elements (Text s # os) =
     (case array_elements os of Inl e \<Rightarrow> Inl e | Inr ss \<Rightarrow> Inr (s # ss))"

fun object_properties :: "(string \<times> outcome) list \<Rightarrow> js_error + string list" where
  "object_properties [] = Inr []"
| "object_properties ((k, Throws e) # os) = Inl e"
| "object_properties ((k, Omitted) # os) = object_properties os"
| "object_properties ((k, Text s) # os) =
     (case object_properties os of
        Inl e \<Rightarrow> Inl e
      | Inr ss \<Rightarrow> Inr ((quote k @ '':'' @ s) # ss))"

fun serialize :: "jsval \<Rightarrow> outcome" where
  "serialize JUndefined = Omitted"
| "serialize JNull = Text ''null''"
| "serialize (JBool b) = Text (if b then ''true'' else ''false'')"
| "serialize (JNum i) = Text (decimal (sint i))"
| "serialize JNaN = Text ''null''"
| "serialize JInfinity = Text ''null''"
| "serialize JNegInfinity = Text ''null''"
| "serialize JNegZero = Text ''0''"
| "serialize (JOtherNumber text) = Text text"
| "serialize (JBigInt i) = Throws (TypeError ''Do not know how to serialize a BigInt'')"
| "serialize (JStr s) = Text (quote s)"
| "serialize (JSymbol d) = Omitted"
| "serialize (JFunction src) = Omitted"
| "serialize (JArr xs) =
     (case array_elements (map serialize xs) of
        Inl e \<Rightarrow> Throws e
      | Inr ss \<Rightarrow> Text (''['' @ join '','' ss @ '']''))"
| "serialize (JObj kvs) =
     (case object_properties (map (\<lambda>(k, v). (k, serialize v)) kvs) of
        Inl e \<Rightarrow> Throws e
      | Inr ss \<Rightarrow> Text (''{'' @ join '','' ss @ ''}''))"

text \<open>\<open>JSON.stringify(v)\<close>: it throws, or returns \<open>undefined\<close>, or returns the text.\<close>

definition JSON_stringify :: "jsval \<Rightarrow> js_error + jsval" where
  "JSON_stringify v =
     (case serialize v of
        Throws e \<Rightarrow> Inl e
      | Omitted \<Rightarrow> Inr JUndefined
      | Text s \<Rightarrow> Inr (JStr s))"

section \<open>State of the composable and of its collaborators\<close>

text \<open>Option bags are only ever spread and handed to the library: a map from key to value.\<close>

type_synonym options = "string \<rightharpoonup> jsval"

record message_record =
  topic :: string
  data :: jsval
  raw :: string
  timestamp :: string

text \<open>
  Calls made on the MQTT library; a client handle is the number of the client.  \<open>ClientEnd c\<close>
  is \<open>client.end()\<close>, which the composable always calls without an argument.
\<close>

datatype call =
    MqttConnect string options
  | ClientEnd nat
  | ClientSubscribe nat string options
  | ClientUnsubscribe nat string
  | ClientPublish nat string jsval options

datatype console_arg = ArgError js_error | ArgValue jsval

datatype console_entry =
    ConsoleLog string "console_arg list"
  | ConsoleWarn string "console_arg list"
  | ConsoleError string "console_arg list"

text \<open>
  The first nine fields are the refs of \<open>useMqtt\<close>.  The subscription set is a JavaScript
  \<open>Set\<close>, kept as the list of its elements in insertion order.  The remaining fields are
  the collaborators: the timers that are armed (identifier and delay in milliseconds; the
  identifiers start at 1, so a stored identifier is truthy), the number of clients created
  so far, the calls made on the library, the acknowledgment callbacks that have been handed
  to the library and not yet invoked, and the console.
\<close>

record world =
  client :: "nat option"
  isConnected :: bool
  isConnecting :: bool
  error :: "js_error option"
  messages :: "message_record list"
  subscriptions :: "string list"
  currentBrokerUrl :: string
  currentClientOptions :: options
  connectionTimeout :: "nat option"
  timers :: "(nat \<times> nat) list"
  nextTimer :: nat
  nextClient :: nat
  calls :: "call list"
  subCallbacks :: "(nat \<times> string) list"
  unsubCallbacks :: "(nat \<times> string) list"
  pubCallbacks :: "(string \<times> jsval) list"
  console :: "console_entry list"

text \<open>\<open>Set.prototype.add\<close> and \<open>Set.prototype.delete\<close> on the insertion-ordered list.\<close>

definition set_add :: "string \<Rightarrow> string list \<Rightarrow> string list" where
  "set_add t xs = (if t \<in> set xs then xs else xs @ [t])"

definition set_delete :: "string \<Rightarrow> string list \<Rightarrow> string list" where
  "set_delete t xs = removeAll t xs"

definition clearTimeout :: "nat \<Rightarrow> world \<Rightarrow> world" where
  "clearTimeout t w = w\<lparr>timers := filter (\<lambda>(i, d). i \<noteq> t) (timers w)\<rparr>"

text \<open>\<open>setTimeout(handler, delay)\<close> arms a fresh timer and returns its identifier.\<close>

definition setTimeout :: "nat \<Rightarrow> world \<Rightarrow> nat \<times> world" where
  "setTimeout delay w =
     (nextTimer w, w\<lparr>timers := timers w @ [(nextTimer w, delay)], nextTimer := Suc (nextTimer w)\<rparr>)"

definition console_log :: "string \<Rightarrow> console_arg list \<Rightarrow> world \<Rightarrow> world" where
  "console_log m args w = w\<lparr>console := console w @ [ConsoleLog m args]\<rparr>"

definition console_warn :: "string \<Rightarrow> console_arg list \<Rightarrow> world \<Rightarrow> world" where
  "console_warn m args w = w\<lparr>console := console w @ [ConsoleWarn m args]\<rparr>"

definition console_error :: "string \<Rightarrow> console_arg list \<Rightarrow> world \<Rightarrow> world" where
  "console_error m args w = w\<lparr>console := console w @ [ConsoleError m args]\<rparr>"

text \<open>
  \<open>useMqtt(options = {})\<close>: the two destructuring defaults apply where the caller gave
  nothing.
\<close>

definition useMqtt :: "string option \<Rightarrow> options option \<Rightarrow> world" where
  "useMqtt brokerUrl clientOptions =
     \<lparr>client = None, isConnected = False, isConnecting = False, error = None,
      messages = [], subscriptions = [],
      currentBrokerUrl = (case brokerUrl of None \<Rightarrow> ''ws://localhost:8083/mqtt'' | Some u \<Rightarrow> u),
      currentClientOptions = (case clientOptions of None \<Rightarrow> Map.empty | Some opts \<Rightarrow> opts),
      connectionTimeout = None,
      timers = [], nextTimer = 1, nextClient = 0, calls = [],
      subCallbacks = [], unsubCallbacks = [], pubCallbacks = [], console = []\<rparr>"

section \<open>The operations of \<open>useMqtt\<close>\<close>

text \<open>
  The snippet \<open>if (connectionTimeout.value) { clearTimeout(...); connectionTimeout.value = null }\<close>
  that \<open>disconnect\<close> and four of the event handlers share.
\<close>

definition clear_connection_timeout :: "world \<Rightarrow> world" where
  "clear_connection_timeout w =
     (case connectionTimeout w of
        None \<Rightarrow> w
      | Some t \<Rightarrow> (clearTimeout t w)\<lparr>connectionTimeout := None\<rparr>)"

definition timeout_error :: js_error where
  "timeout_error =
     Error ''Connection timeout: Unable to connect to broker. Check URL, port, and network connectivity.''"

text \<open>The function handed to \<open>setTimeout\<close> by \<open>connect\<close>.\<close>

definition timeout_handler :: "world \<Rightarrow> world" where
  "timeout_handler w =
     (if isConnecting w \<and> \<not> isConnected w then
        let w1 = w\<lparr>isConnecting := False, error := Some timeout_error\<rparr>;
            w2 = (case client w1 of
                    None \<Rightarrow> w1
                  | Some c \<Rightarrow> w1\<lparr>calls := calls w1 @ [ClientEnd c], client := None\<rparr>)
        in console_error ''Connection timeout'' [] w2
      else w)"

text \<open>
  \<open>connect(url = null, opts = null)\<close>.  Two inputs come from outside the composable:
  \<open>rnd\<close> is the text \<open>Math.random().toString(16).substr(2, 8)\<close>, and \<open>thrown\<close> says
  whether \<open>mqtt.connect\<close> throws (and what) or returns a new client, on which the handlers
  below are then registered.  An empty url is falsy and leaves the stored one in place.
\<close>

definition connect :: "string option \<Rightarrow> options option \<Rightarrow> string \<Rightarrow> js_error option \<Rightarrow> world \<Rightarrow> world" where
  "connect url opts rnd thrown w =
     (if isConnecting w \<or> isConnected w then w
      else
        let w1 = (case url of
                    None \<Rightarrow> w
                  | Some u \<Rightarrow> if u \<noteq> [] then w\<lparr>currentBrokerUrl := u\<rparr> else w);
            w2 = (case opts of
                    None \<Rightarrow> w1
                  | Some os \<Rightarrow> w1\<lparr>currentClientOptions := currentClientOptions w1 ++ os\<rparr>);
            w3 = w2\<lparr>isConnecting := True, error := None\<rparr>;
            w4 = (case connectionTimeout w3 of None \<Rightarrow> w3 | Some t \<Rightarrow> clearTimeout t w3);
            w5 = (case setTimeout 15000 w4 of (t, w') \<Rightarrow> w'\<lparr>connectionTimeout := Some t\<rparr>);
            defaultOptions =
              [''clientId'' \<mapsto> JStr (''vue-mqtt-'' @ rnd),
               ''clean'' \<mapsto> JBool True,
               ''reconnectPeriod'' \<mapsto> JNum 1000,
               ''connectTimeout'' \<mapsto> JNum (10 * 1000)] ++ currentClientOptions w5;
            w6 = w5\<lparr>calls := calls w5 @ [MqttConnect (currentBrokerUrl w5) defaultOptions]\<rparr>
        in case thrown of
             None \<Rightarrow> w6\<lparr>client := Some (nextClient w6), nextClient := Suc (nextClient w6)\<rparr>
           | Some err \<Rightarrow>
               console_error ''Failed to create MQTT client:'' [ArgError err]
                 (w6\<lparr>error := Some err, isConnecting := False\<rparr>))"

text \<open>The handlers registered on every client that \<open>connect\<close> creates.\<close>

definition on_connect :: "world \<Rightarrow> world" where
  "on_connect w =
     console_log ''MQTT Connected'' []
       (clear_connection_timeout (w\<lparr>isConnected := True, isConnecting := False, error := None\<rparr>))"

definition on_error :: "js_error \<Rightarrow> world \<Rightarrow> world" where
  "on_error err w =
     console_error ''MQTT Error:'' [ArgError err]
       (clear_connection_timeout (w\<lparr>error := Some err, isConnecting := False\<rparr>))"

definition on_close :: "world \<Rightarrow> world" where
  "on_close w =
     console_log ''MQTT Disconnected'' []
       (clear_connection_timeout (w\<lparr>isConnected := False, isConnecting := False\<rparr>))"

definition on_reconnect :: "world \<Rightarrow> world" where
  "on_reconnect w = console_log ''MQTT Reconnecting...'' [] (w\<lparr>isConnecting := True\<rparr>)"

definition on_offline :: "world \<Rightarrow> world" where
  "on_offline w =
     console_log ''MQTT Offline'' []
       ((clear_connection_timeout (w\<lparr>isConnected := False, isConnecting := False\<rparr>))
          \<lparr>error := Some (Error ''Connection went offline'')\<rparr>)"

text \<open>
  The message handler.  \<open>payload\<close> is the text \<open>message.toString()\<close>, \<open>now\<close> the text
  \<open>new Date().toISOString()\<close>, and \<open>JSON_parse\<close> the parser of the run-time, \<open>None\<close> where
  it throws.
\<close>

definition on_message :: "(string \<Rightarrow> jsval option) \<Rightarrow> string \<Rightarrow> string \<Rightarrow> string \<Rightarrow> world \<Rightarrow> world" where
  "on_message JSON_parse tp payload now w =
     (case JSON_parse payload of
        Some d \<Rightarrow>
          w\<lparr>messages := \<lparr>topic = tp, data = d, raw = payload, timestamp = now\<rparr> # messages w\<rparr>
      | None \<Rightarrow>
          w\<lparr>messages :=
               \<lparr>topic = tp, data = JStr payload, raw = payload, timestamp = now\<rparr> # messages w\<rparr>)"

definition disconnect :: "world \<Rightarrow> world" where
  "disconnect w =
     (let w1 = clear_connection_timeout w
      in case client w1 of
           None \<Rightarrow> w1
         | Some c \<Rightarrow>
             w1\<lparr>calls := calls w1 @ map (ClientUnsubscribe c) (subscriptions w1) @ [ClientEnd c],
                subscriptions := [], client := None,
                isConnected := False, isConnecting := False, messages := []\<rparr>)"

text \<open>A topic argument is one string or an array of strings.\<close>

datatype topic_arg = Topic string | Topics "string list"

definition topics_of :: "topic_arg \<Rightarrow> string list" where
  "topics_of a = (case a of Topic t \<Rightarrow> [t] | Topics ts \<Rightarrow> ts)"

text \<open>The acknowledgment callback that \<open>subscribe\<close> hands to the library for topic \<open>t\<close>.\<close>

definition subscribe_callback :: "string \<Rightarrow> js_error option \<Rightarrow> world \<Rightarrow> world" where
  "subscribe_callback t err w =
     (case err of
        Some e \<Rightarrow> console_error (''Failed to subscribe to '' @ t @ '':'') [ArgError e] w
      | None \<Rightarrow>
          console_log (''Subscribed to '' @ t) [] (w\<lparr>subscriptions := set_add t (subscriptions w)\<rparr>))"

text \<open>One round of the \<open>forEach\<close> in \<open>subscribe\<close>.\<close>

definition subscribe_topic :: "nat \<Rightarrow> options \<Rightarrow> string \<Rightarrow> world \<Rightarrow> world" where
  "subscribe_topic c defaultOptions t w =
     (if t \<notin> set (subscriptions w) then
        w\<lparr>calls := calls w @ [ClientSubscribe c t defaultOptions],
          subCallbacks := subCallbacks w @ [(c, t)]\<rparr>
      else w)"

definition subscribe :: "topic_arg \<Rightarrow> options \<Rightarrow> world \<Rightarrow> world" where
  "subscribe tp opts w =
     (case client w of
        None \<Rightarrow> console_warn ''MQTT client not connected'' [] w
      | Some c \<Rightarrow>
          if \<not> isConnected w then console_warn ''MQTT client not connected'' [] w
          else fold (subscribe_topic c ([''qos'' \<mapsto> JNum 0] ++ opts)) (topics_of tp) w)"

definition unsubscribe_callback :: "string \<Rightarrow> js_error option \<Rightarrow> world \<Rightarrow> world" where
  "unsubscribe_callback t err w =
     (case err of
        Some e \<Rightarrow> console_error (''Failed to unsubscribe from '' @ t @ '':'') [ArgError e] w
      | None \<Rightarrow>
          console_log (''Unsubscribed from '' @ t) []
            (w\<lparr>subscriptions := set_delete t (subscriptions w)\<rparr>))"

definition unsubscribe_topic :: "nat \<Rightarrow> string \<Rightarrow> world \<Rightarrow> world" where
  "unsubscribe_topic c t w =
     (if t \<in> set (subscriptions w) then
        w\<lparr>calls := calls w @ [ClientUnsubscribe c t],
          unsubCallbacks := unsubCallbacks w @ [(c, t)]\<rparr>
      else w)"

definition unsubscribe :: "topic_arg \<Rightarrow> world \<Rightarrow> world" where
  "unsubscribe tp w =
     (case client w of
        None \<Rightarrow> w
      | Some c \<Rightarrow>
          if \<not> isConnected w then w
          else fold (unsubscribe_topic c) (topics_of tp) w)"

definition publish_callback :: "string \<Rightarrow> jsval \<Rightarrow> js_error option \<Rightarrow> world \<Rightarrow> world" where
  "publish_callback tp payload err w =
     (case err of
        Some e \<Rightarrow> console_error (''Failed to publish to '' @ tp @ '':'') [ArgError e] w
      | None \<Rightarrow> console_log (''Published to '' @ tp @ '':'') [ArgValue payload] w)"

text \<open>The call \<open>client.value.publish(topic, payload, defaultOptions, callback)\<close>.\<close>

definition client_publish :: "nat \<Rightarrow> string \<Rightarrow> jsval \<Rightarrow> options \<Rightarrow> world \<Rightarrow> world" where
  "client_publish c tp payload defaultOptions w =
     w\<lparr>calls := calls w @ [ClientPublish c tp payload defaultOptions],
       pubCallbacks := pubCallbacks w @ [(tp, payload)]\<rparr>"

text \<open>
  \<open>publish\<close> computes the payload before it touches anything: where \<open>JSON.stringify\<close> or
  \<open>String\<close> throws, \<open>publish\<close> throws the same error (\<open>Inl\<close>) and the world is as before.
\<close>

definition publish :: "string \<Rightarrow> jsval \<Rightarrow> options \<Rightarrow> world \<Rightarrow> js_error + world" where
  "publish tp message opts w =
     (case client w of
        None \<Rightarrow> Inr (console_warn ''MQTT client not connected'' [] w)
      | Some c \<Rightarrow>
          if \<not> isConnected w then Inr (console_warn ''MQTT client not connected'' [] w)
          else
            case (if typeof message = ''object'' then JSON_stringify message
                  else map_sum id JStr (String_js message)) of
              Inl e \<Rightarrow> Inl e
            | Inr payload \<Rightarrow>
                Inr (client_publish c tp payload
                       ([''qos'' \<mapsto> JNum 0, ''retain'' \<mapsto> JBool False] ++ opts) w))"

text \<open>\<open>clearMessages\<close> of the form (first half of \<open>src/src/App.vue\<close>).\<close>

definition clearMessages :: "world \<Rightarrow> world" where
  "clearMessages w = w\<lparr>messages := []\<rparr>"

section \<open>Runs of the composable\<close>

text \<open>
  What can happen to a world: a call of one of the five operations (or of \<open>clearMessages\<close>),
  an event of a client, the firing of a timer, or an acknowledgment.  A message event
  carries the payload text, what \<open>JSON.parse\<close> makes of it, and the time.  A call of
  \<open>publish\<close> that throws leaves the world as it was.
\<close>

datatype event =
    CallConnect "string option" "options option" string "js_error option"
  | CallDisconnect
  | CallSubscribe topic_arg options
  | CallUnsubscribe topic_arg
  | CallPublish string jsval options
  | CallClearMessages
  | EvConnect nat
  | EvError nat js_error
  | EvClose nat
  | EvReconnect nat
  | EvOffline nat
  | EvMessage nat string string "jsval option" string
  | TimerFires nat
  | SubAck nat string "js_error option"
  | UnsubAck nat string "js_error option"
  | PubAck string jsval "js_error option"

text \<open>
  An event of a client needs the client to have been created (its handlers are registered at
  creation); a timer fires only while armed, and is no longer armed when its handler runs;
  an acknowledgment answers a pending callback, which is then no longer pending.
\<close>

fun enabled :: "event \<Rightarrow> world \<Rightarrow> bool" where
  "enabled (EvConnect c) w = (c < nextClient w)"
| "enabled (EvError c err) w = (c < nextClient w)"
| "enabled (EvClose c) w = (c < nextClient w)"
| "enabled (EvReconnect c) w = (c < nextClient w)"
| "enabled (EvOffline c) w = (c < nextClient w)"
| "enabled (EvMessage c tp payload parsed now) w = (c < nextClient w)"
| "enabled (TimerFires t) w = (t \<in> fst ` set (timers w))"
| "enabled (SubAck c t err) w = ((c, t) \<in> set (subCallbacks w))"
| "enabled (UnsubAck c t err) w = ((c, t) \<in> set (unsubCallbacks w))"
| "enabled (PubAck tp payload err) w = ((tp, payload) \<in> set (pubCallbacks w))"
| "enabled e w = True"

fun step :: "event \<Rightarrow> world \<Rightarrow> world" where
  "step (CallConnect url opts rnd thrown) w = connect url opts rnd thrown w"
| "step CallDisconnect w = disconnect w"
| "step (CallSubscribe tp opts) w = subscribe tp opts w"
| "step (CallUnsubscribe tp) w = unsubscribe tp w"
| "step (CallPublish tp message opts) w =
     (case publish tp message opts w of Inl e \<Rightarrow> w | Inr w' \<Rightarrow> w')"
| "step CallClearMessages w = clearMessages w"
| "step (EvConnect c) w = on_connect w"
| "step (EvError c err) w = on_error err w"
| "step (EvClose c) w = on_close w"
| "step (EvReconnect c) w = on_reconnect w"
| "step (EvOffline c) w = on_offline w"
| "step (EvMessage c tp payload parsed now) w = on_message (\<lambda>p. parsed) tp payload now w"
| "step (TimerFires t) w = timeout_handler (clearTimeout t w)"
| "step (SubAck c t err) w =
     subscribe_callback t err (w\<lparr>subCallbacks := remove1 (c, t) (subCallbacks w)\<rparr>)"
| "step (UnsubAck c t err) w =
     unsubscribe_callback t err (w\<lparr>unsubCallbacks := remove1 (c, t) (unsubCallbacks w)\<rparr>)"
| "step (PubAck tp payload err) w =
     publish_callback tp payload err (w\<lparr>pubCallbacks := remove1 (tp, payload) (pubCallbacks w)\<rparr>)"

fun run :: "event list \<Rightarrow> world \<Rightarrow> world" where
  "run [] w = w"
| "run (e # es) w = run es (step e w)"

fun valid_run :: "event list \<Rightarrow> world \<Rightarrow> bool" where
  "valid_run [] w = True"
| "valid_run (e # es) w = (enabled e w \<and> valid_run es (step e w))"

inductive reachable :: "world \<Rightarrow> bool" where
  start: "reachable (useMqtt brokerUrl clientOptions)"
| next_event: "reachable w \<Longrightarrow> enabled e w \<Longrightarrow> reachable (step e w)"

section \<open>Scenarios and invariants used in the statements\<close>

text \<open>A first connection attempt from the initial state, still waiting for the broker.\<close>

definition first_attempt :: world where
  "first_attempt = connect (Some ''ws://broker:9001'') None ''1a2b3c4d'' None (useMqtt None None)"

text \<open>The session after the broker has acknowledged the connection.\<close>

definition connected_world :: world where
  "connected_world =
     run [CallConnect (Some ''ws://broker:9001'') None ''1a2b3c4d'' None, EvConnect 0]
       (useMqtt None None)"

text \<open>A connected session with one acknowledged subscription and one received message.\<close>

definition live_trace :: "event list" where
  "live_trace =
     [CallConnect (Some ''ws://broker:9001'') None ''1a2b3c4d'' None,
      EvConnect 0,
      CallSubscribe (Topic ''gps/location'') Map.empty,
      SubAck 0 ''gps/location'' None,
      EvMessage 0 ''gps/location'' ''hello'' None ''2024-01-01T00:00:00.000Z'']"

definition live_session :: world where
  "live_session = run live_trace (useMqtt None None)"

text \<open>
  The same session after the connection has dropped, the user has called \<open>connect\<close> again,
  and the timer of that second attempt has fired: the handle is gone, the subscription and
  the message are still there.
\<close>

definition stale_trace :: "event list" where
  "stale_trace =
     [CallConnect (Some ''ws://broker:9001'') None ''1a2b3c4d'' None,
      EvConnect 0,
      CallSubscribe (Topic ''gps/location'') Map.empty,
      SubAck 0 ''gps/location'' None,
      EvMessage 0 ''gps/location'' ''hello'' None ''2024-01-01T00:00:00.000Z'',
      EvClose 0,
      CallConnect None None ''5e6f7a8b'' None,
      TimerFires 2]"

definition stale_session :: world where
  "stale_session = run stale_trace (useMqtt None None)"

text \<open>
  An attempt whose connection closes before any acknowledgment, after which the library
  tries again: no timer is armed any more.
\<close>

definition unacknowledged_session :: world where
  "unacknowledged_session =
     run [CallConnect (Some ''ws://broker:9001'') None ''1a2b3c4d'' None, EvClose 0, EvReconnect 0]
       (useMqtt None None)"

text \<open>An attempt that the library answers with an error event.\<close>

definition refused_session :: world where
  "refused_session =
     run [CallConnect (Some ''ws://broker:9001'') None ''1a2b3c4d'' None,
          EvError 0 (Error ''connect ECONNREFUSED'')]
       (useMqtt None None)"

text \<open>Events that leave the timer of a running attempt armed.\<close>

definition quiet_events :: "event list" where
  "quiet_events = [EvReconnect 0, CallPublish ''gps/data'' (JStr ''x'') Map.empty]"

text \<open>A parser that knows the two payloads of the examples.\<close>

definition example_parse :: "string \<Rightarrow> jsval option" where
  \<open>example_parse p = (if p = ''{"x":1}'' then Some (JObj [(''x'', JNum 1)]) else None)\<close>

text \<open>Every armed timer is the one whose identifier \<open>connectionTimeout\<close> holds.\<close>

definition timers_tracked :: "world \<Rightarrow> bool" where
  "timers_tracked w \<longleftrightarrow> (\<forall>(i, d) \<in> set (timers w). connectionTimeout w = Some i)"

text \<open>
  An attempt is waiting on timer \<open>t\<close> with client \<open>c\<close>: connecting, not connected, and \<open>t\<close>
  is the one armed timer, set to 15 seconds.
\<close>

definition attempt_pending :: "nat \<Rightarrow> nat \<Rightarrow> world \<Rightarrow> bool" where
  "attempt_pending t c w \<longleftrightarrow>
     isConnecting w \<and> \<not> isConnected w \<and> connectionTimeout w = Some t \<and>
     timers w = [(t, 15000)] \<and> client w = Some c"

definition attempt_or_disarmed :: "nat \<Rightarrow> nat \<Rightarrow> world \<Rightarrow> bool" where
  "attempt_or_disarmed t c w \<longleftrightarrow>
     t < nextTimer w \<and> (attempt_pending t c w \<or> t \<notin> fst ` set (timers w))"

section \<open>Auxiliary facts\<close>

lemmas op_defs = connect_def disconnect_def subscribe_def unsubscribe_def publish_def
  client_publish_def
  clearMessages_def on_connect_def on_error_def on_close_def on_reconnect_def on_offline_def
  on_message_def timeout_handler_def subscribe_callback_def unsubscribe_callback_def
  publish_callback_def clear_connection_timeout_def clearTimeout_def setTimeout_def
  console_log_def console_warn_def console_error_def

lemmas scenario_defs = op_defs useMqtt_def subscribe_topic_def unsubscribe_topic_def
  topics_of_def set_add_def set_delete_def JSON_stringify_def Let_def

lemma fold_subscribe_topic:
  "fold (subscribe_topic c d) ts w =
     w\<lparr>calls := calls w @ map (\<lambda>t. ClientSubscribe c t d)
                             (filter (\<lambda>t. t \<notin> set (subscriptions w)) ts),
       subCallbacks := subCallbacks w @ map (Pair c)
                             (filter (\<lambda>t. t \<notin> set (subscriptions w)) ts)\<rparr>"
  by (induction ts arbitrary: w) (simp_all add: subscribe_topic_def)

lemma fold_unsubscribe_topic:
  "fold (unsubscribe_topic c) ts w =
     w\<lparr>calls := calls w @ map (ClientUnsubscribe c)
                             (filter (\<lambda>t. t \<in> set (subscriptions w)) ts),
       unsubCallbacks := unsubCallbacks w @ map (Pair c)
                             (filter (\<lambda>t. t \<in> set (subscriptions w)) ts)\<rparr>"
  by (induction ts arbitrary: w) (simp_all add: unsubscribe_topic_def)

lemma subscribe_connected:
  "client w = Some c \<Longrightarrow> isConnected w \<Longrightarrow>
   subscribe tp opts w =
     w\<lparr>calls := calls w @ map (\<lambda>t. ClientSubscribe c t ([''qos'' \<mapsto> JNum 0] ++ opts))
                             (filter (\<lambda>t. t \<notin> set (subscriptions w)) (topics_of tp)),
       subCallbacks := subCallbacks w @ map (Pair c)
                             (filter (\<lambda>t. t \<notin> set (subscriptions w)) (topics_of tp))\<rparr>"
  by (simp add: subscribe_def fold_subscribe_topic)

lemma unsubscribe_connected:
  "client w = Some c \<Longrightarrow> isConnected w \<Longrightarrow>
   unsubscribe tp w =
     w\<lparr>calls := calls w @ map (ClientUnsubscribe c)
                             (filter (\<lambda>t. t \<in> set (subscriptions w)) (topics_of tp)),
       unsubCallbacks := unsubCallbacks w @ map (Pair c)
                             (filter (\<lambda>t. t \<in> set (subscriptions w)) (topics_of tp))\<rparr>"
  by (simp add: unsubscribe_def fold_unsubscribe_topic)

lemma valid_run_reachable: "reachable w \<Longrightarrow> valid_run es w \<Longrightarrow> reachable (run es w)"
  by (induction es arbitrary: w) (auto intro: reachable.next_event)

lemma map_add_unset: "n k = None \<Longrightarrow> (m ++ n) k = m k"
  by (simp add: map_add_def)

lemma primitive_string: "typeof v \<noteq> ''object'' \<Longrightarrow> \<exists>s. String_js v = Inr s"
  by (cases v) (simp_all add: String_js_def)

lemmas json_defs = JSON_stringify_def quote_def escape_char_def hex4_def decimal_def

lemma String_js_objects:
  "String_js JNull = Inr ''null''"
  "String_js (JObj kvs) = Inr ''[object Object]''"
  "String_js (JArr [JNum 1, JArr [JNull, JStr ''a'', JUndefined], JObj [], JBool True]) =
     Inr ''1,,a,,[object Object],true''"
  "String_js (JArr [JNum 1, JSymbol ''x'']) =
     Inl (TypeError ''Cannot convert a Symbol value to a string'')"
  by (simp_all add: String_js_def decimal_def)

subsection \<open>Decimal digits\<close>

lemma digit_value_nth: "d < 10 \<Longrightarrow> digit_value (''0123456789'' ! d) = d"
proof -
  assume "d < 10"
  then have "d \<in> {0, 1, 2, 3, 4, 5, 6, 7, 8, 9}" by auto
  then show ?thesis by (auto simp add: digit_value_def)
qed

lemma digit_nth_member: "d < 10 \<Longrightarrow> ''0123456789'' ! d \<in> set ''0123456789''"
  by (rule nth_mem) simp

lemma digit_nth_nonzero: "0 < d \<Longrightarrow> d < 10 \<Longrightarrow> ''0123456789'' ! d \<noteq> CHR ''0''"
proof -
  assume "0 < d" and "d < 10"
  then have "d \<in> {1, 2, 3, 4, 5, 6, 7, 8, 9}" by auto
  then show ?thesis by auto
qed

lemma digits_step:
  "\<not> n < 10 \<Longrightarrow> digits n = digits (n div 10) @ [''0123456789'' ! (n mod 10)]"
  by (subst digits.simps) simp

lemma digits_nonempty: "digits n \<noteq> []"
  by (subst digits.simps) simp

lemma decimal_value_digits: "decimal_value (digits n) = n"
proof (induction n rule: digits.induct)
  case (1 n)
  show ?case
  proof (cases "n < 10")
    case True
    then show ?thesis by (simp add: decimal_value_def digit_value_nth)
  next
    case False
    then have "decimal_value (digits n) =
        10 * decimal_value (digits (n div 10)) + digit_value (''0123456789'' ! (n mod 10))"
      by (simp add: digits_step decimal_value_def)
    also have "\<dots> = 10 * (n div 10) + n mod 10"
      using "1.IH" False by (simp add: digit_value_nth)
    finally show ?thesis by simp
  qed
qed

lemma digits_are_digits: "set (digits n) \<subseteq> set ''0123456789''"
proof (induction n rule: digits.induct)
  case (1 n)
  show ?case
  proof (cases "n < 10")
    case True
    then show ?thesis using digit_nth_member [of n] by simp
  next
    case False
    then show ?thesis
      using "1.IH" digit_nth_member [of "n mod 10"] by (simp add: digits_step)
  qed
qed

lemma digits_no_leading_zero: "10 \<le> n \<Longrightarrow> hd (digits n) \<noteq> CHR ''0''"
proof (induction n rule: digits.induct)
  case (1 n)
  from "1.prems" have step: "digits n = digits (n div 10) @ [''0123456789'' ! (n mod 10)]"
    by (simp add: digits_step)
  then have h: "hd (digits n) = hd (digits (n div 10))"
    by (simp add: digits_nonempty)
  show ?case
  proof (cases "n div 10 < 10")
    case True
    from "1.prems" have "0 < n div 10" by simp
    with True h show ?thesis using digit_nth_nonzero [of "n div 10"] by simp
  next
    case False
    with "1.IH" "1.prems" h show ?thesis by simp
  qed
qed

subsection \<open>The scenarios\<close>

lemma first_attempt_connecting: "isConnecting first_attempt"
  by (simp add: first_attempt_def scenario_defs)

lemma connected_world_fields:
  "client connected_world = Some 0" "isConnected connected_world"
  "\<not> isConnecting connected_world" "subscriptions connected_world = []"
  by (simp_all add: connected_world_def scenario_defs)

lemma connected_world_reachable: "reachable connected_world"
  unfolding connected_world_def
proof (rule valid_run_reachable)
  show "reachable (useMqtt None None)" by (rule reachable.start)
  show "valid_run [CallConnect (Some ''ws://broker:9001'') None ''1a2b3c4d'' None, EvConnect 0]
          (useMqtt None None)"
    by (simp add: scenario_defs)
qed

lemma live_session_fields:
  "client live_session = Some 0" "isConnected live_session"
  "subscriptions live_session = [''gps/location'']"
  "messages live_session =
     [\<lparr>topic = ''gps/location'', data = JStr ''hello'', raw = ''hello'',
       timestamp = ''2024-01-01T00:00:00.000Z''\<rparr>]"
  by (simp_all add: live_session_def live_trace_def scenario_defs)

lemma stale_session_reachable: "reachable stale_session"
  unfolding stale_session_def
proof (rule valid_run_reachable)
  show "reachable (useMqtt None None)" by (rule reachable.start)
  show "valid_run stale_trace (useMqtt None None)"
    by (simp add: stale_trace_def scenario_defs)
qed

lemma stale_session_fields:
  "client stale_session = None" "\<not> isConnected stale_session" "\<not> isConnecting stale_session"
  "subscriptions stale_session = [''gps/location'']"
  "messages stale_session =
     [\<lparr>topic = ''gps/location'', data = JStr ''hello'', raw = ''hello'',
       timestamp = ''2024-01-01T00:00:00.000Z''\<rparr>]"
  by (simp_all add: stale_session_def stale_trace_def scenario_defs)

lemma unacknowledged_session_reachable: "reachable unacknowledged_session"
  unfolding unacknowledged_session_def
proof (rule valid_run_reachable)
  show "reachable (useMqtt None None)" by (rule reachable.start)
  show "valid_run
          [CallConnect (Some ''ws://broker:9001'') None ''1a2b3c4d'' None, EvClose 0, EvReconnect 0]
          (useMqtt None None)"
    by (simp add: scenario_defs)
qed

lemma refused_session_reachable: "reachable refused_session"
  unfolding refused_session_def
proof (rule valid_run_reachable)
  show "reachable (useMqtt None None)" by (rule reachable.start)
  show "valid_run
          [CallConnect (Some ''ws://broker:9001'') None ''1a2b3c4d'' None,
           EvError 0 (Error ''connect ECONNREFUSED'')]
          (useMqtt None None)"
    by (simp add: scenario_defs)
qed

subsection \<open>Invariants of the runs\<close>

lemma timers_tracked_step: "timers_tracked w \<Longrightarrow> timers_tracked (step e w)"
  by (cases e)
    (auto simp add: timers_tracked_def op_defs fold_subscribe_topic fold_unsubscribe_topic Let_def
      split: option.splits sum.splits)

lemma timers_tracked_reachable: "reachable w \<Longrightarrow> timers_tracked w"
proof (induction rule: reachable.induct)
  case (start brokerUrl clientOptions)
  show ?case by (simp add: timers_tracked_def useMqtt_def)
next
  case (next_event w e)
  then show ?case by (simp add: timers_tracked_step)
qed

lemma tracked_none: "timers_tracked w \<Longrightarrow> connectionTimeout w = None \<Longrightarrow> timers w = []"
  by (cases "timers w") (auto simp add: timers_tracked_def)

lemma tracked_some:
  "timers_tracked w \<Longrightarrow> connectionTimeout w = Some t \<Longrightarrow>
   filter (\<lambda>(i, d). i \<noteq> t) (timers w) = []"
  by (auto simp add: timers_tracked_def filter_empty_conv)

lemma connect_starts_attempt:
  assumes "timers_tracked w" and "\<not> isConnecting w" and "\<not> isConnected w"
  shows "attempt_pending (nextTimer w) (nextClient w) (connect url opts rnd None w)"
  using assms
  by (simp add: attempt_pending_def connect_def setTimeout_def clearTimeout_def
      Let_def tracked_none tracked_some split: option.splits)

lemma attempt_or_disarmed_step:
  "attempt_or_disarmed t c w \<Longrightarrow> enabled e w \<Longrightarrow> attempt_or_disarmed t c (step e w)"
  by (cases e)
    (auto simp add: attempt_or_disarmed_def attempt_pending_def op_defs fold_subscribe_topic
      fold_unsubscribe_topic Let_def split: option.splits sum.splits)

lemma attempt_or_disarmed_run:
  "attempt_or_disarmed t c w \<Longrightarrow> valid_run es w \<Longrightarrow> attempt_or_disarmed t c (run es w)"
  by (induction es arbitrary: w) (simp_all add: attempt_or_disarmed_step)

lemma step_adds_subscription:
  "t \<in> set (subscriptions (step e w)) \<Longrightarrow> t \<notin> set (subscriptions w) \<Longrightarrow>
   \<exists>c. e = SubAck c t None"
  by (cases e)
    (auto simp add: op_defs fold_subscribe_topic fold_unsubscribe_topic Let_def set_add_def
      set_delete_def split: option.splits sum.splits if_splits)

lemma step_drops_subscription:
  "t \<in> set (subscriptions w) \<Longrightarrow> t \<notin> set (subscriptions (step e w)) \<Longrightarrow>
   (\<exists>c. e = UnsubAck c t None) \<or> e = CallDisconnect"
  by (cases e)
    (auto simp add: op_defs fold_subscribe_topic fold_unsubscribe_topic Let_def set_add_def
      set_delete_def split: option.splits sum.splits if_splits)

lemma distinct_subscriptions_step:
  "distinct (subscriptions w) \<Longrightarrow> distinct (subscriptions (step e w))"
  by (cases e)
    (auto simp add: op_defs fold_subscribe_topic fold_unsubscribe_topic Let_def set_add_def
      set_delete_def distinct_removeAll split: option.splits sum.splits if_splits)

lemma distinct_subscriptions_reachable: "reachable w \<Longrightarrow> distinct (subscriptions w)"
  by (induction rule: reachable.induct) (simp_all add: useMqtt_def distinct_subscriptions_step)

lemma subscribe_twice:
  assumes "client w = Some c" and "isConnected w" and "t \<notin> set (subscriptions w)"
  shows "let w2 = subscribe (Topic t) opts2 (subscribe (Topic t) opts w);
             acks = [SubAck c t None, SubAck c t None]
         in calls w2 = calls w @ [ClientSubscribe c t ([''qos'' \<mapsto> JNum 0] ++ opts),
                                  ClientSubscribe c t ([''qos'' \<mapsto> JNum 0] ++ opts2)] \<and>
            valid_run acks w2 \<and>
            count_list (subscriptions (run acks w2)) t = 1 \<and>
            set (subscriptions (run acks w2)) = insert t (set (subscriptions w))"
proof -
  let ?d = "[''qos'' \<mapsto> JNum 0] ++ opts" and ?d2 = "[''qos'' \<mapsto> JNum 0] ++ opts2"
  let ?w1 = "w\<lparr>calls := calls w @ [ClientSubscribe c t ?d],
               subCallbacks := subCallbacks w @ [(c, t)]\<rparr>"
  let ?w2 = "w\<lparr>calls := calls w @ [ClientSubscribe c t ?d, ClientSubscribe c t ?d2],
               subCallbacks := subCallbacks w @ [(c, t), (c, t)]\<rparr>"
  have w1: "subscribe (Topic t) opts w = ?w1"
    using assms by (simp add: subscribe_connected topics_of_def)
  have "subscribe (Topic t) opts2 ?w1 = ?w2"
    using assms by (simp add: subscribe_connected topics_of_def)
  with w1 have w2: "subscribe (Topic t) opts2 (subscribe (Topic t) opts w) = ?w2"
    by simp
  have v: "valid_run [SubAck c t None, SubAck c t None] ?w2"
    by (simp add: subscribe_callback_def console_log_def remove1_append)
  have s: "subscriptions (run [SubAck c t None, SubAck c t None] ?w2) = subscriptions w @ [t]"
    using assms(3) by (simp add: subscribe_callback_def console_log_def set_add_def)
  have "count_list (subscriptions w @ [t]) t = 1"
    using assms(3) by (simp add: count_list_0_iff)
  with w2 v s show ?thesis
    by (simp add: Let_def del: run.simps valid_run.simps)
qed

section \<open>The claims\<close>

text \<open>
  Claim C1 says that \<open>disconnect()\<close> leaves the subscription set and the message log empty
  and both flags false from every reachable state.  The stale session is reachable and has
  no client handle, so \<open>disconnect()\<close> skips its guarded block there: the subscription and
  the message survive the call.
\<close>

theorem disconnect_stale_session:
  "reachable stale_session \<and>
   subscriptions (disconnect stale_session) = [''gps/location''] \<and>
   messages (disconnect stale_session) =
     [\<lparr>topic = ''gps/location'', data = JStr ''hello'', raw = ''hello'',
       timestamp = ''2024-01-01T00:00:00.000Z''\<rparr>]"
  by (simp add: stale_session_reachable)
    (simp add: stale_session_def stale_trace_def scenario_defs)

text \<open>
  Claim C1, as amended: in a state that holds a client handle, \<open>disconnect()\<close> unsubscribes
  every entry, ends the client, and leaves the subscription set and the message log empty,
  both flags false, and the handle and the pending timeout cleared; in a state without a
  handle it only clears the pending timeout, and the set, the log and the flags stay as
  they were.
\<close>

theorem disconnect_with_handle:
  "(client w = Some c \<longrightarrow>
      (let w' = disconnect w
       in subscriptions w' = [] \<and> messages w' = [] \<and> \<not> isConnected w' \<and> \<not> isConnecting w' \<and>
          client w' = None \<and> connectionTimeout w' = None \<and>
          calls w' = calls w @ map (ClientUnsubscribe c) (subscriptions w) @ [ClientEnd c])) \<and>
   (client w = None \<longrightarrow>
      (let w' = disconnect w
       in w' = clear_connection_timeout w \<and>
          subscriptions w' = subscriptions w \<and> messages w' = messages w \<and>
          isConnected w' = isConnected w \<and> isConnecting w' = isConnecting w))"
  by (simp add: disconnect_def clear_connection_timeout_def clearTimeout_def Let_def
      split: option.splits)

theorem disconnect_with_handle_witness:
  "client live_session = Some 0 \<and>
   subscriptions live_session \<noteq> [] \<and> messages live_session \<noteq> [] \<and>
   subscriptions (disconnect live_session) = [] \<and> messages (disconnect live_session) = [] \<and>
   \<not> isConnected (disconnect live_session) \<and> \<not> isConnecting (disconnect live_session) \<and>
   client (useMqtt None None) = None \<and>
   disconnect (useMqtt None None) = clear_connection_timeout (useMqtt None None)"
  using disconnect_with_handle [of live_session 0] disconnect_with_handle [of "useMqtt None None" 0]
    live_session_fields
  by (simp add: Let_def useMqtt_def)

text \<open>
  Claim C2: a call of \<open>connect\<close> while the session is connecting or connected changes
  nothing at all, neither a ref of the composable nor the timers, the clients or the calls
  made on the library.
\<close>

theorem connect_busy_noop:
  "isConnecting w \<or> isConnected w \<Longrightarrow> connect url opts rnd thrown w = w"
  by (simp add: connect_def)

theorem connect_busy_noop_witness:
  "(isConnecting first_attempt \<or> isConnected first_attempt) \<and>
   connect (Some ''ws://other:9001'') (Some [''username'' \<mapsto> JStr ''u'']) ''5e6f7a8b'' None
     first_attempt = first_attempt"
  using connect_busy_noop [of first_attempt "Some ''ws://other:9001''"
      "Some [''username'' \<mapsto> JStr ''u'']" "''5e6f7a8b''" None]
    first_attempt_connecting
  by simp

text \<open>
  Claim C3 says that whenever \<open>connect\<close> starts an attempt and no connect acknowledgment
  arrives, the timeout handler ends the attempt with the timeout error.  In the two sessions
  below an attempt was started and no acknowledgment ever arrived, yet no timer is armed
  any more (the close and the error handler have cleared it): the first is still
  connecting, the second shows the error of the library, and in both the client is still
  held and was never ended.
\<close>

theorem connect_unacknowledged_sessions:
  "reachable unacknowledged_session \<and>
   isConnecting unacknowledged_session \<and> \<not> isConnected unacknowledged_session \<and>
   timers unacknowledged_session = [] \<and> error unacknowledged_session = None \<and>
   client unacknowledged_session = Some 0 \<and>
   ClientEnd 0 \<notin> set (calls unacknowledged_session) \<and>
   reachable refused_session \<and>
   \<not> isConnecting refused_session \<and> \<not> isConnected refused_session \<and>
   timers refused_session = [] \<and>
   error refused_session = Some (Error ''connect ECONNREFUSED'') \<and>
   client refused_session = Some 0 \<and>
   ClientEnd 0 \<notin> set (calls refused_session)"
  by (simp add: unacknowledged_session_reachable refused_session_reachable)
    (simp add: unacknowledged_session_def refused_session_def scenario_defs)

text \<open>
  Claim C3, as amended: \<open>connect\<close> from an idle reachable state, with \<open>mqtt.connect\<close>
  returning a client, arms one timer of 15 seconds.  Whatever happens next, if that timer
  is still armed when it fires (no connect, error, close or offline event and no
  \<open>disconnect\<close> has cleared it), the session is neither connecting nor connected, the
  error is the connection-timeout error with the text of the source, and \<open>end()\<close> has been
  called on the client of the attempt and the handle cleared.
\<close>

theorem connect_timeout:
  assumes "reachable w" and "\<not> isConnecting w" and "\<not> isConnected w"
    and "valid_run es (connect url opts rnd None w)"
    and "enabled (TimerFires (nextTimer w)) (run es (connect url opts rnd None w))"
  shows "timers (connect url opts rnd None w) = [(nextTimer w, 15000)] \<and>
    (let w1 = run es (connect url opts rnd None w); w2 = step (TimerFires (nextTimer w)) w1
     in \<not> isConnecting w2 \<and> \<not> isConnected w2 \<and>
        error w2 =
          Some (Error ''Connection timeout: Unable to connect to broker. Check URL, port, and network connectivity.'') \<and>
        client w1 = Some (nextClient w) \<and> client w2 = None \<and>
        calls w2 = calls w1 @ [ClientEnd (nextClient w)])"
proof -
  let ?t = "nextTimer w" and ?c = "nextClient w"
  let ?w0 = "connect url opts rnd None w"
  have p0: "attempt_pending ?t ?c ?w0"
    using assms(1-3) by (simp add: connect_starts_attempt timers_tracked_reachable)
  have "?t < nextTimer ?w0"
    by (simp add: connect_def setTimeout_def clearTimeout_def Let_def assms(2,3)
        split: option.splits)
  with p0 have "attempt_or_disarmed ?t ?c ?w0"
    by (simp add: attempt_or_disarmed_def)
  then have "attempt_or_disarmed ?t ?c (run es ?w0)"
    using assms(4) by (rule attempt_or_disarmed_run)
  with assms(5) have p1: "attempt_pending ?t ?c (run es ?w0)"
    by (simp add: attempt_or_disarmed_def)
  have "timers ?w0 = [(?t, 15000)]"
    using p0 by (simp add: attempt_pending_def)
  moreover from p1 have "let w1 = run es ?w0; w2 = step (TimerFires ?t) w1
     in \<not> isConnecting w2 \<and> \<not> isConnected w2 \<and>
        error w2 =
          Some (Error ''Connection timeout: Unable to connect to broker. Check URL, port, and network connectivity.'') \<and>
        client w1 = Some ?c \<and> client w2 = None \<and> calls w2 = calls w1 @ [ClientEnd ?c]"
    by (simp add: attempt_pending_def timeout_handler_def timeout_error_def clearTimeout_def
        console_error_def Let_def)
  ultimately show ?thesis by simp
qed

theorem connect_timeout_witness:
  "reachable (useMqtt None None) \<and>
   \<not> isConnecting (useMqtt None None) \<and> \<not> isConnected (useMqtt None None) \<and>
   valid_run quiet_events first_attempt \<and>
   enabled (TimerFires 1) (run quiet_events first_attempt) \<and>
   timers first_attempt = [(1, 15000)] \<and>
   isConnecting (run quiet_events first_attempt) \<and>
   \<not> isConnecting (step (TimerFires 1) (run quiet_events first_attempt)) \<and>
   \<not> isConnected (step (TimerFires 1) (run quiet_events first_attempt)) \<and>
   error (step (TimerFires 1) (run quiet_events first_attempt)) =
     Some (Error ''Connection timeout: Unable to connect to broker. Check URL, port, and network connectivity.'') \<and>
   client (step (TimerFires 1) (run quiet_events first_attempt)) = None"
proof -
  let ?w = "useMqtt None None"
  have h1: "reachable ?w" by (rule reachable.start)
  have h2: "\<not> isConnecting ?w" and h3: "\<not> isConnected ?w"
    by (simp_all add: useMqtt_def)
  have n: "nextTimer ?w = 1" by (simp add: useMqtt_def)
  have h4: "valid_run quiet_events (connect (Some ''ws://broker:9001'') None ''1a2b3c4d'' None ?w)"
    by (simp add: quiet_events_def scenario_defs)
  have h5: "enabled (TimerFires (nextTimer ?w))
              (run quiet_events (connect (Some ''ws://broker:9001'') None ''1a2b3c4d'' None ?w))"
    by (simp add: quiet_events_def scenario_defs)
  have h6: "isConnecting (run quiet_events first_attempt)"
    by (simp add: first_attempt_def quiet_events_def scenario_defs)
  from connect_timeout [OF h1 h2 h3 h4 h5] h1 h2 h3 h4 h5 h6 n show ?thesis
    by (simp add: first_attempt_def Let_def del: step.simps)
qed

text \<open>
  Claim C4 says that \<open>publish\<close> sends the JSON encoding of every object-typed message.  An
  object that holds a BigInt is object-typed and has no JSON encoding: \<open>JSON.stringify\<close>
  throws, \<open>publish\<close> throws with it, and nothing is sent.
\<close>

theorem publish_bigint_object:
  "client connected_world = Some 0 \<and> isConnected connected_world \<and>
   typeof (JObj [(''n'', JBigInt 10)]) = ''object'' \<and>
   publish ''gps/data'' (JObj [(''n'', JBigInt 10)]) Map.empty connected_world =
     Inl (TypeError ''Do not know how to serialize a BigInt'') \<and>
   step (CallPublish ''gps/data'' (JObj [(''n'', JBigInt 10)]) Map.empty) connected_world =
     connected_world"
  using connected_world_fields by (simp add: publish_def JSON_stringify_def)

text \<open>
  Claim C4, as amended: with a client handle and the connected flag set, \<open>publish\<close> sends
  what \<open>JSON.stringify\<close> returns for an object-typed message (\<open>{a:1}\<close> goes out as
  \<open>{"a":1}\<close>) and sends a string unchanged, with the options \<open>qos = 0\<close> and
  \<open>retain = false\<close> under those of the caller; where \<open>JSON.stringify\<close> throws, \<open>publish\<close>
  throws the same error and sends nothing; without a handle or with the flag unset it only
  writes the warning to the console.  The further conjuncts say what \<open>JSON.stringify\<close>
  returns: numbers, the values without text, nesting, and every kind of string escape.
\<close>

theorem publish_payload:
  \<open>(client w = Some c \<and> isConnected w \<and> typeof message = ''object'' \<and>
     JSON_stringify message = Inr payload \<longrightarrow>
       publish tp message opts w =
         Inr (client_publish c tp payload
                ([''qos'' \<mapsto> JNum 0, ''retain'' \<mapsto> JBool False] ++ opts) w)) \<and>
    (client w = Some c \<and> isConnected w \<and> typeof message = ''object'' \<and>
     JSON_stringify message = Inl e \<longrightarrow>
       publish tp message opts w = Inl e \<and> step (CallPublish tp message opts) w = w) \<and>
    (client w = Some c \<and> isConnected w \<longrightarrow>
       publish tp (JObj [(''a'', JNum 1)]) Map.empty w =
         Inr (client_publish c tp (JStr ''{"a":1}'')
                [''qos'' \<mapsto> JNum 0, ''retain'' \<mapsto> JBool False] w)) \<and>
    (client w = Some c \<and> isConnected w \<longrightarrow>
       publish tp (JStr str) opts w =
         Inr (client_publish c tp (JStr str)
                ([''qos'' \<mapsto> JNum 0, ''retain'' \<mapsto> JBool False] ++ opts) w)) \<and>
    (client w = None \<or> \<not> isConnected w \<longrightarrow>
       publish tp message opts w =
         Inr (w\<lparr>console := console w @ [ConsoleWarn ''MQTT client not connected'' []]\<rparr>)) \<and>
    calls (client_publish c tp payload used w) = calls w @ [ClientPublish c tp payload used] \<and>
    typeof JNull = ''object'' \<and> typeof (JArr xs) = ''object'' \<and> typeof (JObj kvs) = ''object'' \<and>
    JSON_stringify JNull = Inr (JStr ''null'') \<and>
    JSON_stringify
      (JArr [JNum 1, JUndefined, JStr ''a'', JNaN, JInfinity, JNegInfinity, JNegZero,
             JOtherNumber ''1e+21'', JOtherNumber ''0.5'', JSymbol ''x'', JFunction ''f'',
             JBool False, JBool True, JNull, JArr [], JObj []]) =
      Inr (JStr ''[1,null,"a",null,null,null,0,1e+21,0.5,null,null,false,true,null,[],{}]'') \<and>
    JSON_stringify
      (JObj [(''u'', JUndefined), (''f'', JFunction ''f''), (''s'', JSymbol ''x''),
             (''n'', JNum (- 7)), (''big'', JNum 9007199254740991),
             (''o'', JObj [(''k'', JArr [JNull])])]) =
      Inr (JStr ''{"n":-7,"big":9007199254740991,"o":{"k":[null]}}'') \<and>
    JSON_stringify
      (JObj [([CHR 0x22, CHR 0x5C],
              JStr [CHR 0x22, CHR 0x5C, CHR 0x08, CHR 0x0C, CHR 0x0A, CHR 0x0D, CHR 0x09,
                    CHR 0x1F, CHR 0x00, CHR 0x7F, CHR ''/''])]) =
      Inr (JStr ([CHR ''{'', CHR 0x22, CHR 0x5C, CHR 0x22, CHR 0x5C, CHR 0x5C, CHR 0x22,
                  CHR '':'', CHR 0x22,
                  CHR 0x5C, CHR 0x22, CHR 0x5C, CHR 0x5C, CHR 0x5C, CHR ''b'',
                  CHR 0x5C, CHR ''f'', CHR 0x5C, CHR ''n'', CHR 0x5C, CHR ''r'',
                  CHR 0x5C, CHR ''t'', CHR 0x5C] @ ''u001f'' @ [CHR 0x5C] @ ''u0000'' @
                 [CHR 0x7F, CHR ''/'', CHR 0x22, CHR ''}''])) \<and>
    JSON_stringify (JObj [(''a'', JNum 1), (''n'', JArr [JBigInt 10])]) =
      Inl (TypeError ''Do not know how to serialize a BigInt'')\<close>
proof (intro conjI impI)
  assume "client w = Some c \<and> isConnected w \<and> typeof message = ''object'' \<and>
     JSON_stringify message = Inr payload"
  then show "publish tp message opts w =
         Inr (client_publish c tp payload
                ([''qos'' \<mapsto> JNum 0, ''retain'' \<mapsto> JBool False] ++ opts) w)"
    by (simp add: publish_def)
next
  assume a: "client w = Some c \<and> isConnected w \<and> typeof message = ''object'' \<and>
     JSON_stringify message = Inl e"
  then show "publish tp message opts w = Inl e"
    by (simp add: publish_def)
  with a show "step (CallPublish tp message opts) w = w"
    by simp
next
  assume "client w = Some c \<and> isConnected w"
  then show \<open>publish tp (JObj [(''a'', JNum 1)]) Map.empty w =
         Inr (client_publish c tp (JStr ''{"a":1}'')
                [''qos'' \<mapsto> JNum 0, ''retain'' \<mapsto> JBool False] w)\<close>
    by (simp add: publish_def json_defs)
next
  assume "client w = Some c \<and> isConnected w"
  then show "publish tp (JStr str) opts w =
         Inr (client_publish c tp (JStr str)
                ([''qos'' \<mapsto> JNum 0, ''retain'' \<mapsto> JBool False] ++ opts) w)"
    by (simp add: publish_def String_js_def)
next
  assume "client w = None \<or> \<not> isConnected w"
  then show "publish tp message opts w =
         Inr (w\<lparr>console := console w @ [ConsoleWarn ''MQTT client not connected'' []]\<rparr>)"
    by (auto simp add: publish_def console_warn_def split: option.splits)
next
  show "calls (client_publish c tp payload used w) = calls w @ [ClientPublish c tp payload used]"
    by (simp add: client_publish_def)
qed (simp_all add: json_defs)

theorem publish_payload_witness:
  \<open>client connected_world = Some 0 \<and> isConnected connected_world \<and>
    typeof (JArr [JNum 1, JUndefined, JStr ''a'']) = ''object'' \<and>
    JSON_stringify (JArr [JNum 1, JUndefined, JStr ''a'']) = Inr (JStr ''[1,null,"a"]'') \<and>
    publish ''gps/data'' (JArr [JNum 1, JUndefined, JStr ''a'']) Map.empty connected_world =
      Inr (client_publish 0 ''gps/data'' (JStr ''[1,null,"a"]'')
             [''qos'' \<mapsto> JNum 0, ''retain'' \<mapsto> JBool False] connected_world) \<and>
    typeof (JArr [JBigInt 1]) = ''object'' \<and>
    JSON_stringify (JArr [JBigInt 1]) =
      Inl (TypeError ''Do not know how to serialize a BigInt'') \<and>
    publish ''gps/data'' (JArr [JBigInt 1]) Map.empty connected_world =
      Inl (TypeError ''Do not know how to serialize a BigInt'') \<and>
    publish ''gps/data'' (JStr ''raw'') [''qos'' \<mapsto> JNum 1] connected_world =
      Inr (client_publish 0 ''gps/data'' (JStr ''raw'')
             ([''qos'' \<mapsto> JNum 0, ''retain'' \<mapsto> JBool False] ++ [''qos'' \<mapsto> JNum 1])
             connected_world) \<and>
    (client (useMqtt None None) = None \<or> \<not> isConnected (useMqtt None None)) \<and>
    publish ''gps/data'' (JStr ''raw'') Map.empty (useMqtt None None) =
      Inr ((useMqtt None None)\<lparr>console := [ConsoleWarn ''MQTT client not connected'' []]\<rparr>)\<close>
proof -
  have u: "client (useMqtt None None) = None" "console (useMqtt None None) = []"
    by (simp_all add: useMqtt_def)
  have e: \<open>JSON_stringify (JArr [JNum 1, JUndefined, JStr ''a'']) = Inr (JStr ''[1,null,"a"]'')\<close>
    by (simp add: json_defs)
  have b: "JSON_stringify (JArr [JBigInt 1]) =
      Inl (TypeError ''Do not know how to serialize a BigInt'')"
    by (simp add: json_defs)
  from publish_payload [where w = connected_world and c = 0
      and message = "JArr [JNum 1, JUndefined, JStr ''a'']"
      and payload = \<open>JStr ''[1,null,"a"]''\<close> and tp = "''gps/data''" and opts = Map.empty]
    publish_payload [where w = connected_world and c = 0 and message = "JArr [JBigInt 1]"
      and e = "TypeError ''Do not know how to serialize a BigInt''" and tp = "''gps/data''"
      and opts = Map.empty]
    publish_payload [where w = connected_world and c = 0 and str = "''raw''"
      and tp = "''gps/data''" and opts = "[''qos'' \<mapsto> JNum 1]"]
    publish_payload [where w = "useMqtt None None" and message = "JStr ''raw''"
      and tp = "''gps/data''" and opts = Map.empty]
    connected_world_fields u e b
  show ?thesis by (simp del: step.simps)
qed

text \<open>
  Claim C5: the message handler prepends one record to the message log and changes nothing
  else.  Where \<open>JSON.parse\<close> accepts the payload text, \<open>data\<close> is the parsed value and
  \<open>raw\<close> the text; where it throws, \<open>data\<close> and \<open>raw\<close> are both the text.
\<close>

theorem message_handler:
  "(JSON_parse payload = Some d \<longrightarrow>
      on_message JSON_parse tp payload now w =
        w\<lparr>messages := \<lparr>topic = tp, data = d, raw = payload, timestamp = now\<rparr> # messages w\<rparr>) \<and>
   (JSON_parse payload = None \<longrightarrow>
      on_message JSON_parse tp payload now w =
        w\<lparr>messages :=
             \<lparr>topic = tp, data = JStr payload, raw = payload, timestamp = now\<rparr> # messages w\<rparr>) \<and>
   step (EvMessage c tp payload (JSON_parse payload) now) w =
     on_message JSON_parse tp payload now w"
  by (simp add: on_message_def)

theorem message_handler_witness:
  \<open>example_parse ''{"x":1}'' = Some (JObj [(''x'', JNum 1)]) \<and>
    messages (on_message example_parse ''gps/location'' ''{"x":1}'' ''2024-01-01T00:00:00.000Z''
                live_session) =
      \<lparr>topic = ''gps/location'', data = JObj [(''x'', JNum 1)], raw = ''{"x":1}'',
        timestamp = ''2024-01-01T00:00:00.000Z''\<rparr> # messages live_session \<and>
    example_parse ''hello'' = None \<and>
    messages (on_message example_parse ''gps/location'' ''hello'' ''2024-01-01T00:00:00.000Z''
                live_session) =
      \<lparr>topic = ''gps/location'', data = JStr ''hello'', raw = ''hello'',
        timestamp = ''2024-01-01T00:00:00.000Z''\<rparr> # messages live_session\<close>
proof -
  have p1: \<open>example_parse ''{"x":1}'' = Some (JObj [(''x'', JNum 1)])\<close>
    by (simp add: example_parse_def)
  have p2: "example_parse ''hello'' = None"
    by (simp add: example_parse_def)
  from message_handler [of example_parse \<open>''{"x":1}''\<close> "JObj [(''x'', JNum 1)]"
      "''gps/location''" "''2024-01-01T00:00:00.000Z''" live_session 0]
    message_handler [of example_parse "''hello''" JNull
      "''gps/location''" "''2024-01-01T00:00:00.000Z''" live_session 0]
    p1 p2
  show ?thesis by simp
qed

text \<open>
  Claim C6: without a client handle or with the connected flag unset, \<open>subscribe\<close> only
  writes the warning.  Otherwise it issues one request (\<open>qos = 0\<close> under the caller's
  options) for each given topic that is not in the subscription set, and leaves the set
  alone.  No event other than a successful acknowledgment of a subscribe for \<open>t\<close> puts
  \<open>t\<close> into the set; a successful acknowledgment adds it, a failed one does not.  The set
  never holds a topic twice: two calls for the same topic before the first acknowledgment
  issue two requests, and after both acknowledgments the topic is in the set once.
\<close>

theorem subscribe_contract:
  "(client w = None \<or> \<not> isConnected w \<longrightarrow>
      subscribe tp opts w =
        w\<lparr>console := console w @ [ConsoleWarn ''MQTT client not connected'' []]\<rparr>) \<and>
   (client w = Some c \<and> isConnected w \<longrightarrow>
      calls (subscribe tp opts w) =
        calls w @ map (\<lambda>t. ClientSubscribe c t ([''qos'' \<mapsto> JNum 0] ++ opts))
                    (filter (\<lambda>t. t \<notin> set (subscriptions w)) (topics_of tp)) \<and>
      subscriptions (subscribe tp opts w) = subscriptions w) \<and>
   (\<forall>e. t \<in> set (subscriptions (step e w)) \<and> t \<notin> set (subscriptions w) \<longrightarrow>
        (\<exists>c'. e = SubAck c' t None)) \<and>
   set (subscriptions (step (SubAck c t None) w)) = insert t (set (subscriptions w)) \<and>
   subscriptions (step (SubAck c t (Some err)) w) = subscriptions w \<and>
   (reachable w \<longrightarrow> distinct (subscriptions w)) \<and>
   (client w = Some c \<and> isConnected w \<and> t \<notin> set (subscriptions w) \<longrightarrow>
      (let w2 = subscribe (Topic t) opts2 (subscribe (Topic t) opts w);
           acks = [SubAck c t None, SubAck c t None]
       in calls w2 = calls w @ [ClientSubscribe c t ([''qos'' \<mapsto> JNum 0] ++ opts),
                                ClientSubscribe c t ([''qos'' \<mapsto> JNum 0] ++ opts2)] \<and>
          valid_run acks w2 \<and>
          count_list (subscriptions (run acks w2)) t = 1 \<and>
          set (subscriptions (run acks w2)) = insert t (set (subscriptions w))))"
proof (intro conjI impI allI)
  assume "client w = None \<or> \<not> isConnected w"
  then show "subscribe tp opts w =
      w\<lparr>console := console w @ [ConsoleWarn ''MQTT client not connected'' []]\<rparr>"
    by (auto simp add: subscribe_def console_warn_def split: option.splits)
next
  assume "client w = Some c \<and> isConnected w"
  then show "calls (subscribe tp opts w) =
        calls w @ map (\<lambda>t. ClientSubscribe c t ([''qos'' \<mapsto> JNum 0] ++ opts))
                    (filter (\<lambda>t. t \<notin> set (subscriptions w)) (topics_of tp))"
    by (simp add: subscribe_connected)
next
  assume "client w = Some c \<and> isConnected w"
  then show "subscriptions (subscribe tp opts w) = subscriptions w"
    by (simp add: subscribe_connected)
next
  fix e assume "t \<in> set (subscriptions (step e w)) \<and> t \<notin> set (subscriptions w)"
  then show "\<exists>c'. e = SubAck c' t None"
    using step_adds_subscription by blast
next
  show "set (subscriptions (step (SubAck c t None) w)) = insert t (set (subscriptions w))"
    by (auto simp add: subscribe_callback_def console_log_def set_add_def)
next
  show "subscriptions (step (SubAck c t (Some err)) w) = subscriptions w"
    by (simp add: subscribe_callback_def console_error_def)
next
  assume "reachable w"
  then show "distinct (subscriptions w)" by (rule distinct_subscriptions_reachable)
next
  assume "client w = Some c \<and> isConnected w \<and> t \<notin> set (subscriptions w)"
  then show "let w2 = subscribe (Topic t) opts2 (subscribe (Topic t) opts w);
           acks = [SubAck c t None, SubAck c t None]
       in calls w2 = calls w @ [ClientSubscribe c t ([''qos'' \<mapsto> JNum 0] ++ opts),
                                ClientSubscribe c t ([''qos'' \<mapsto> JNum 0] ++ opts2)] \<and>
          valid_run acks w2 \<and>
          count_list (subscriptions (run acks w2)) t = 1 \<and>
          set (subscriptions (run acks w2)) = insert t (set (subscriptions w))"
    using subscribe_twice [of w c t opts2 opts] by simp
qed

theorem subscribe_contract_witness:
  "(client (useMqtt None None) = None \<or> \<not> isConnected (useMqtt None None)) \<and>
   console (subscribe (Topic ''gps/location'') Map.empty (useMqtt None None)) =
     [ConsoleWarn ''MQTT client not connected'' []] \<and>
   client live_session = Some 0 \<and> isConnected live_session \<and>
   calls (subscribe (Topics [''gps/location'', ''gps/speed'']) Map.empty live_session) =
     calls live_session @ [ClientSubscribe 0 ''gps/speed'' [''qos'' \<mapsto> JNum 0]] \<and>
   reachable connected_world \<and> distinct (subscriptions connected_world) \<and>
   client connected_world = Some 0 \<and> isConnected connected_world \<and>
   ''gps/location'' \<notin> set (subscriptions connected_world) \<and>
   ''gps/location'' \<in> set (subscriptions (step (SubAck 0 ''gps/location'' None) connected_world)) \<and>
   valid_run [SubAck 0 ''gps/location'' None, SubAck 0 ''gps/location'' None]
     (subscribe (Topic ''gps/location'') Map.empty
        (subscribe (Topic ''gps/location'') Map.empty connected_world)) \<and>
   count_list
     (subscriptions
        (run [SubAck 0 ''gps/location'' None, SubAck 0 ''gps/location'' None]
           (subscribe (Topic ''gps/location'') Map.empty
              (subscribe (Topic ''gps/location'') Map.empty connected_world))))
     ''gps/location'' = 1"
proof -
  have u: "client (useMqtt None None) = None" "console (useMqtt None None) = []"
    by (simp_all add: useMqtt_def)
  from subscribe_contract [of "useMqtt None None" "Topic ''gps/location''" Map.empty 0
      "''gps/location''" "Error ''refused''" Map.empty]
    subscribe_contract [of live_session "Topics [''gps/location'', ''gps/speed'']" Map.empty 0
      "''gps/location''" "Error ''refused''" Map.empty]
    subscribe_contract [of connected_world "Topic ''gps/location''" Map.empty 0
      "''gps/location''" "Error ''refused''" Map.empty]
    u live_session_fields connected_world_fields connected_world_reachable
  show ?thesis
    by (simp add: Let_def topics_of_def del: run.simps valid_run.simps step.simps)
qed

text \<open>
  Claim C7: without a client handle or with the connected flag unset, \<open>unsubscribe\<close> does
  nothing.  Otherwise it issues one request for each given topic that is in the
  subscription set, and leaves the set alone.  A successful acknowledgment removes the
  topic, a failed one leaves the set as it was, and apart from \<open>disconnect\<close> no other
  event takes a topic out of the set.
\<close>

theorem unsubscribe_contract:
  "(client w = None \<or> \<not> isConnected w \<longrightarrow> unsubscribe tp w = w) \<and>
   (client w = Some c \<and> isConnected w \<longrightarrow>
      calls (unsubscribe tp w) =
        calls w @ map (ClientUnsubscribe c)
                    (filter (\<lambda>t. t \<in> set (subscriptions w)) (topics_of tp)) \<and>
      subscriptions (unsubscribe tp w) = subscriptions w) \<and>
   set (subscriptions (step (UnsubAck c t None) w)) = set (subscriptions w) - {t} \<and>
   subscriptions (step (UnsubAck c t (Some err)) w) = subscriptions w \<and>
   (\<forall>e. t \<in> set (subscriptions w) \<and> t \<notin> set (subscriptions (step e w)) \<longrightarrow>
        (\<exists>c'. e = UnsubAck c' t None) \<or> e = CallDisconnect)"
proof (intro conjI impI allI)
  assume "client w = None \<or> \<not> isConnected w"
  then show "unsubscribe tp w = w"
    by (auto simp add: unsubscribe_def split: option.splits)
next
  assume "client w = Some c \<and> isConnected w"
  then show "calls (unsubscribe tp w) =
        calls w @ map (ClientUnsubscribe c)
                    (filter (\<lambda>t. t \<in> set (subscriptions w)) (topics_of tp))"
    by (simp add: unsubscribe_connected)
next
  assume "client w = Some c \<and> isConnected w"
  then show "subscriptions (unsubscribe tp w) = subscriptions w"
    by (simp add: unsubscribe_connected)
next
  show "set (subscriptions (step (UnsubAck c t None) w)) = set (subscriptions w) - {t}"
    by (auto simp add: unsubscribe_callback_def console_log_def set_delete_def)
next
  show "subscriptions (step (UnsubAck c t (Some err)) w) = subscriptions w"
    by (simp add: unsubscribe_callback_def console_error_def)
next
  fix e assume "t \<in> set (subscriptions w) \<and> t \<notin> set (subscriptions (step e w))"
  then show "(\<exists>c'. e = UnsubAck c' t None) \<or> e = CallDisconnect"
    using step_drops_subscription by blast
qed

theorem unsubscribe_contract_witness:
  "(client stale_session = None \<or> \<not> isConnected stale_session) \<and>
   unsubscribe (Topic ''gps/location'') stale_session = stale_session \<and>
   client live_session = Some 0 \<and> isConnected live_session \<and>
   calls (unsubscribe (Topics [''gps/speed'', ''gps/location'']) live_session) =
     calls live_session @ [ClientUnsubscribe 0 ''gps/location''] \<and>
   subscriptions (unsubscribe (Topics [''gps/speed'', ''gps/location'']) live_session) =
     [''gps/location''] \<and>
   ''gps/location'' \<in> set (subscriptions live_session) \<and>
   ''gps/location'' \<notin> set (subscriptions (step CallDisconnect live_session)) \<and>
   set (subscriptions (step (UnsubAck 0 ''gps/location'' None) live_session)) = {} \<and>
   subscriptions (step (UnsubAck 0 ''gps/location'' (Some (Error ''refused''))) live_session) =
     [''gps/location'']"
proof -
  have d: "''gps/location'' \<notin> set (subscriptions (step CallDisconnect live_session))"
    using live_session_fields
    by (simp add: disconnect_def clear_connection_timeout_def clearTimeout_def
        split: option.splits)
  from unsubscribe_contract [of stale_session "Topic ''gps/location''" 0 "''gps/location''"
      "Error ''refused''"]
    unsubscribe_contract [of live_session "Topics [''gps/speed'', ''gps/location'']" 0
      "''gps/location''" "Error ''refused''"]
    stale_session_fields live_session_fields d
  show ?thesis
    by (simp add: topics_of_def del: step.simps)
qed

text \<open>
  Claim C8: from an idle state, \<open>connect\<close> stores a non-empty url it is given and keeps the
  stored one otherwise, stores the given options merged over the stored ones, and calls
  \<open>mqtt.connect\<close> with the stored url and with every stored option, filling in the client
  id \<open>vue-mqtt-\<close> plus the random text, \<open>clean = true\<close>, \<open>reconnectPeriod = 1000\<close> and
  \<open>connectTimeout = 10000\<close> where the stored options have no such key.
\<close>

theorem connect_options:
  assumes "\<not> isConnecting w" and "\<not> isConnected w"
  shows "let w' = connect url opts rnd thrown w in
     currentBrokerUrl w' =
       (case url of None \<Rightarrow> currentBrokerUrl w
        | Some u \<Rightarrow> if u = [] then currentBrokerUrl w else u) \<and>
     currentClientOptions w' =
       (case opts of None \<Rightarrow> currentClientOptions w | Some os \<Rightarrow> currentClientOptions w ++ os) \<and>
     (\<forall>os k v. opts = Some os \<and> os k = Some v \<longrightarrow> currentClientOptions w' k = Some v) \<and>
     (\<forall>os k. opts = Some os \<and> os k = None \<longrightarrow>
        currentClientOptions w' k = currentClientOptions w k) \<and>
     (\<exists>used. calls w' = calls w @ [MqttConnect (currentBrokerUrl w') used] \<and>
        (\<forall>k v. currentClientOptions w' k = Some v \<longrightarrow> used k = Some v) \<and>
        (currentClientOptions w' ''clientId'' = None \<longrightarrow>
           used ''clientId'' = Some (JStr (''vue-mqtt-'' @ rnd))) \<and>
        (currentClientOptions w' ''clean'' = None \<longrightarrow> used ''clean'' = Some (JBool True)) \<and>
        (currentClientOptions w' ''reconnectPeriod'' = None \<longrightarrow>
           used ''reconnectPeriod'' = Some (JNum 1000)) \<and>
        (currentClientOptions w' ''connectTimeout'' = None \<longrightarrow>
           used ''connectTimeout'' = Some (JNum 10000)))"
  using assms
  by (cases url; cases opts; cases thrown)
    (simp_all add: connect_def setTimeout_def clearTimeout_def console_error_def Let_def
      map_add_unset split: option.splits)

theorem connect_options_witness:
  "\<not> isConnecting (useMqtt None None) \<and> \<not> isConnected (useMqtt None None) \<and>
   currentBrokerUrl (useMqtt None None) = ''ws://localhost:8083/mqtt'' \<and>
   currentBrokerUrl
     (connect (Some ''ws://broker:9001'') (Some [''clientId'' \<mapsto> JStr ''gps-1''])
        ''1a2b3c4d'' None (useMqtt None None)) = ''ws://broker:9001'' \<and>
   currentClientOptions
     (connect (Some ''ws://broker:9001'') (Some [''clientId'' \<mapsto> JStr ''gps-1''])
        ''1a2b3c4d'' None (useMqtt None None)) = [''clientId'' \<mapsto> JStr ''gps-1''] \<and>
   (\<exists>used.
      calls (connect (Some ''ws://broker:9001'') (Some [''clientId'' \<mapsto> JStr ''gps-1''])
               ''1a2b3c4d'' None (useMqtt None None)) = [MqttConnect ''ws://broker:9001'' used] \<and>
      used ''clientId'' = Some (JStr ''gps-1'') \<and>
      used ''clean'' = Some (JBool True) \<and>
      used ''reconnectPeriod'' = Some (JNum 1000) \<and>
      used ''connectTimeout'' = Some (JNum 10000))"
proof -
  let ?w = "useMqtt None None"
  let ?w' = "connect (Some ''ws://broker:9001'') (Some [''clientId'' \<mapsto> JStr ''gps-1''])
               ''1a2b3c4d'' None ?w"
  have h: "\<not> isConnecting ?w" "\<not> isConnected ?w"
    "currentBrokerUrl ?w = ''ws://localhost:8083/mqtt''"
    "currentClientOptions ?w = Map.empty" "calls ?w = []"
    by (simp_all add: useMqtt_def)
  note t = connect_options [OF h(1) h(2), of "Some ''ws://broker:9001''"
      "Some [''clientId'' \<mapsto> JStr ''gps-1'']" "''1a2b3c4d''" None, unfolded Let_def]
  from t h have u: "currentBrokerUrl ?w' = ''ws://broker:9001''"
    by simp
  from t h have o: "currentClientOptions ?w' = [''clientId'' \<mapsto> JStr ''gps-1'']"
    by simp
  from t obtain used where c: "calls ?w' = calls ?w @ [MqttConnect (currentBrokerUrl ?w') used]"
    and k: "\<forall>k v. currentClientOptions ?w' k = Some v \<longrightarrow> used k = Some v"
    and d1: "currentClientOptions ?w' ''clean'' = None \<longrightarrow> used ''clean'' = Some (JBool True)"
    and d2: "currentClientOptions ?w' ''reconnectPeriod'' = None \<longrightarrow>
             used ''reconnectPeriod'' = Some (JNum 1000)"
    and d3: "currentClientOptions ?w' ''connectTimeout'' = None \<longrightarrow>
             used ''connectTimeout'' = Some (JNum 10000)"
    by (elim conjE exE)
  from c u h have "calls ?w' = [MqttConnect ''ws://broker:9001'' used]"
    by simp
  moreover from k o have "used ''clientId'' = Some (JStr ''gps-1'')"
    by simp
  moreover from d1 d2 d3 o have "used ''clean'' = Some (JBool True)"
    "used ''reconnectPeriod'' = Some (JNum 1000)" "used ''connectTimeout'' = Some (JNum 10000)"
    by simp_all
  ultimately have "\<exists>used. calls ?w' = [MqttConnect ''ws://broker:9001'' used] \<and>
      used ''clientId'' = Some (JStr ''gps-1'') \<and> used ''clean'' = Some (JBool True) \<and>
      used ''reconnectPeriod'' = Some (JNum 1000) \<and> used ''connectTimeout'' = Some (JNum 10000)"
    by blast
  with h u o show ?thesis by simp
qed

text \<open>
  Claim C9: with a client handle and the connected flag set, a message that is neither a
  string nor object-typed goes out as \<open>String(message)\<close>, which never throws for such a
  value; the number 42 goes out as the text \<open>42\<close>.  The further conjuncts say what
  \<open>String\<close> gives for each kind of value: \<open>undefined\<close>, the booleans, the numbers
  (integers as their decimal digits, which read back as the integer, are all digits and
  have no leading zero; the special numbers; any other number as its own text), BigInts,
  symbols and functions.
\<close>

theorem publish_primitive:
  assumes "client w = Some c" and "isConnected w"
    and "typeof message \<noteq> ''object''" and "typeof message \<noteq> ''string''"
  shows "(\<exists>text. String_js message = Inr text \<and>
            publish tp message opts w =
              Inr (client_publish c tp (JStr text)
                     ([''qos'' \<mapsto> JNum 0, ''retain'' \<mapsto> JBool False] ++ opts) w)) \<and>
         publish tp (JNum 42) opts w =
           Inr (client_publish c tp (JStr ''42'')
                  ([''qos'' \<mapsto> JNum 0, ''retain'' \<mapsto> JBool False] ++ opts) w) \<and>
         calls (client_publish c tp payload used w) =
           calls w @ [ClientPublish c tp payload used] \<and>
         typeof JUndefined = ''undefined'' \<and> typeof (JBool q) = ''boolean'' \<and>
         typeof (JNum i) = ''number'' \<and> typeof JNaN = ''number'' \<and>
         typeof JInfinity = ''number'' \<and> typeof JNegInfinity = ''number'' \<and>
         typeof JNegZero = ''number'' \<and> typeof (JOtherNumber num) = ''number'' \<and>
         typeof (JBigInt b) = ''bigint'' \<and> typeof (JSymbol d) = ''symbol'' \<and>
         typeof (JFunction src) = ''function'' \<and>
         String_js JUndefined = Inr ''undefined'' \<and>
         String_js (JBool True) = Inr ''true'' \<and>
         String_js (JBool False) = Inr ''false'' \<and>
         String_js (JNum i) = Inr (decimal (sint i)) \<and>
         String_js (JNum 0) = Inr ''0'' \<and>
         String_js (JNum (- 120)) = Inr ''-120'' \<and>
         String_js (JNum 9007199254740991) = Inr ''9007199254740991'' \<and>
         String_js (JNum (- 9007199254740992)) = Inr ''-9007199254740992'' \<and>
         String_js JNaN = Inr ''NaN'' \<and>
         String_js JInfinity = Inr ''Infinity'' \<and>
         String_js JNegInfinity = Inr ''-Infinity'' \<and>
         String_js JNegZero = Inr ''0'' \<and>
         String_js (JOtherNumber num) = Inr num \<and>
         String_js (JBigInt b) = Inr (decimal b) \<and>
         String_js (JBigInt 1000000000000000000000) = Inr ''1000000000000000000000'' \<and>
         String_js (JSymbol d) = Inr (''Symbol('' @ d @ '')'') \<and>
         String_js (JFunction src) = Inr src \<and>
         decimal n = (if n < 0 then CHR ''-'' # digits (nat (- n)) else digits (nat n)) \<and>
         decimal_value (digits k) = k \<and>
         set (digits k) \<subseteq> set ''0123456789'' \<and>
         (10 \<le> k \<longrightarrow> hd (digits k) \<noteq> CHR ''0'')"
proof -
  from assms(3) obtain str where t: "String_js message = Inr str"
    using primitive_string by blast
  with assms have "publish tp message opts w =
      Inr (client_publish c tp (JStr str)
             ([''qos'' \<mapsto> JNum 0, ''retain'' \<mapsto> JBool False] ++ opts) w)"
    by (simp add: publish_def)
  with t have g: "\<exists>text. String_js message = Inr text \<and>
            publish tp message opts w =
              Inr (client_publish c tp (JStr text)
                     ([''qos'' \<mapsto> JNum 0, ''retain'' \<mapsto> JBool False] ++ opts) w)"
    by blast
  have p: "publish tp (JNum 42) opts w =
           Inr (client_publish c tp (JStr ''42'')
                  ([''qos'' \<mapsto> JNum 0, ''retain'' \<mapsto> JBool False] ++ opts) w)"
    using assms(1,2) by (simp add: publish_def String_js_def decimal_def)
  have s: "String_js JUndefined = Inr ''undefined''" "String_js (JBool True) = Inr ''true''"
    "String_js (JBool False) = Inr ''false''" "String_js (JNum i) = Inr (decimal (sint i))"
    "String_js (JNum 0) = Inr ''0''" "String_js (JNum (- 120)) = Inr ''-120''"
    "String_js (JNum 9007199254740991) = Inr ''9007199254740991''"
    "String_js (JNum (- 9007199254740992)) = Inr ''-9007199254740992''"
    "String_js JNaN = Inr ''NaN''" "String_js JInfinity = Inr ''Infinity''"
    "String_js JNegInfinity = Inr ''-Infinity''" "String_js JNegZero = Inr ''0''"
    "String_js (JOtherNumber num) = Inr num" "String_js (JBigInt b) = Inr (decimal b)"
    "String_js (JSymbol d) = Inr (''Symbol('' @ d @ '')'')" "String_js (JFunction src) = Inr src"
    by (simp_all add: String_js_def decimal_def)
  have b: "String_js (JBigInt 1000000000000000000000) = Inr ''1000000000000000000000''"
    by (simp add: String_js_def decimal_def)
  have d: "decimal n = (if n < 0 then CHR ''-'' # digits (nat (- n)) else digits (nat n))"
    by (simp add: decimal_def)
  have c: "calls (client_publish c tp payload used w) = calls w @ [ClientPublish c tp payload used]"
    by (simp add: client_publish_def)
  have ty: "typeof JUndefined = ''undefined''" "typeof (JBool q) = ''boolean''"
    "typeof (JNum i) = ''number''" "typeof JNaN = ''number''" "typeof JInfinity = ''number''"
    "typeof JNegInfinity = ''number''" "typeof JNegZero = ''number''"
    "typeof (JOtherNumber num) = ''number''" "typeof (JBigInt b) = ''bigint''"
    "typeof (JSymbol d) = ''symbol''" "typeof (JFunction src) = ''function''"
    by simp_all
  from g p c ty s b d decimal_value_digits [of k] digits_are_digits [of k]
    digits_no_leading_zero [of k]
  show ?thesis by blast
qed

theorem publish_primitive_witness:
  "client connected_world = Some 0 \<and> isConnected connected_world \<and>
   typeof (JBool True) \<noteq> ''object'' \<and> typeof (JBool True) \<noteq> ''string'' \<and>
   publish ''gps/data'' (JBool True) Map.empty connected_world =
     Inr (client_publish 0 ''gps/data'' (JStr ''true'')
            [''qos'' \<mapsto> JNum 0, ''retain'' \<mapsto> JBool False] connected_world) \<and>
   typeof (JOtherNumber ''1e+21'') \<noteq> ''object'' \<and> typeof (JOtherNumber ''1e+21'') \<noteq> ''string'' \<and>
   publish ''gps/data'' (JOtherNumber ''1e+21'') Map.empty connected_world =
     Inr (client_publish 0 ''gps/data'' (JStr ''1e+21'')
            [''qos'' \<mapsto> JNum 0, ''retain'' \<mapsto> JBool False] connected_world) \<and>
   (10::nat) \<le> 1042 \<and> hd (digits 1042) = CHR ''1'' \<and> decimal_value ''1042'' = 1042"
proof -
  have d: "digits 1042 = ''1042''" by simp
  from publish_primitive [where w = connected_world and c = 0 and message = "JBool True"
      and tp = "''gps/data''" and opts = Map.empty and k = 1042]
    publish_primitive [where w = connected_world and c = 0
      and message = "JOtherNumber ''1e+21''" and tp = "''gps/data''" and opts = Map.empty
      and k = 1042]
    connected_world_fields d
  show ?thesis by (simp add: String_js_def)
qed

text \<open>
  Claim C10: when the timer fires while the session is not connecting, or is connected, the
  handler changes nothing; the firing itself only takes the timer off the armed ones.
\<close>

theorem stale_timer_noop:
  "\<not> (isConnecting w \<and> \<not> isConnected w) \<Longrightarrow>
     timeout_handler w = w \<and>
     step (TimerFires t) w = w\<lparr>timers := filter (\<lambda>(i, d). i \<noteq> t) (timers w)\<rparr>"
  by (auto simp add: timeout_handler_def clearTimeout_def)

theorem stale_timer_noop_witness:
  "\<not> (isConnecting connected_world \<and> \<not> isConnected connected_world) \<and>
   timeout_handler connected_world = connected_world \<and>
   error (step (TimerFires 1) connected_world) = None \<and>
   client (step (TimerFires 1) connected_world) = Some 0"
proof -
  have "error connected_world = None"
    by (simp add: connected_world_def scenario_defs)
  with stale_timer_noop [of connected_world 1] connected_world_fields
  show ?thesis by (simp del: step.simps)
qed

end
